theory Spec2Isabelle
  imports Main
begin

section \<open>Data model of the bot pool\<close>

text \<open>
  The program is the command \<open>Owner.summon\<close> of \<open>modules/legacy_cmds.py\<close> (lines 609-714).
  It runs inside one bot of a pool of bots that share a process; every bot keeps its own
  dictionary of music players, keyed by guild id. Python objects that are shared by
  reference (the bots) live in a store indexed by a reference; the pool is the list
  \<open>self.bot.pool.bots\<close> of such references, in its own order.
\<close>

type_synonym user_id = nat
type_synonym guild_id = nat
type_synonym channel_id = nat
type_synonym bot_ref = nat

text \<open>A voice channel as the command reads it: its id and the keys of its
  \<open>voice_states\<close> dictionary (the ids of the members connected to it); \<open>stage\<close> says
  whether the object is a \<open>disnake.StageChannel\<close>.\<close>

record voice_channel =
  vc_id :: channel_id
  voice_states :: "user_id set"
  stage :: bool

text \<open>A \<open>Guild\<close> object belongs to the cache of one bot (\<open>guild.me\<close> is that bot's member).\<close>

record guild =
  g_id :: guild_id
  g_me :: bot_ref

text \<open>A text channel object: the bot whose cache it comes from and the channel id.\<close>

type_synonym text_channel = "bot_ref \<times> channel_id"

text \<open>The fields of \<open>CustomContext\<close> that \<open>summon\<close> reads. After a selection the variable
  \<open>ctx\<close> is rebound to the interaction \<open>v.inter\<close>, of which the same fields are read, so
  one record serves for both. \<open>author_voice\<close> is \<open>ctx.author.voice\<close> (\<open>None\<close> when the
  author is in no voice channel).\<close>

record ctx =
  c_bot :: bot_ref
  author_id :: user_id
  author_voice :: "voice_channel option"
  c_channel :: channel_id
  c_guild :: guild

text \<open>A player (\<open>LavalinkPlayer\<close>): the summon command reads \<open>p.last_channel.voice_states\<close>
  only; the owner and the bound text channel are what \<open>create_player\<close> is given.\<close>

record player =
  p_bot :: bot_ref
  p_guild :: guild
  p_text_channel :: "text_channel option"
  last_channel :: voice_channel

record bot =
  b_user_id :: user_id
  bot_ready :: bool
  guilds :: "guild_id set"
  players :: "guild_id \<rightharpoonup> player"
  best_node :: "nat option"
  channels :: "channel_id set"

record pool_state =
  bots :: "bot_ref \<Rightarrow> bot"
  pool_bots :: "bot_ref list"

datatype error = GenericError string | NoVoice | AttributeError

text \<open>The texts \<open>summon\<close> puts into the prompt message by \<open>msg.edit\<close>.\<close>

datatype prompt_text =
    TimeIsUp
  | OperationCanceled
  | NotConnected
  | SessionStarted channel_id user_id

text \<open>What the command does to the outside, in order: the prompt it sends through the
  addressed bot, the wait on the selection view, the edits of the prompt, the calls into
  the music subsystem, and the steps after the connection.\<close>

datatype event =
    SendPrompt bot_ref channel_id channel_id "bot_ref list"
  | AwaitView
  | EditPrompt prompt_text
  | CreatePlayer ctx bot_ref guild "text_channel option"
  | Connect bot_ref guild_id channel_id
  | AddReaction bot_ref channel_id
  | Sleep1
  | Unsuppress guild
  | StageSleep
  | ProcessNext bot_ref guild_id

text \<open>The attributes of the \<open>SelectBotVoice\<close> view that \<open>summon\<close> reads after
  \<open>await v.wait()\<close>: \<open>status\<close> is \<open>None\<close> after the timeout, \<open>False\<close> after a cancel
  and \<open>True\<close> after a choice.\<close>

record view =
  v_status :: "bool option"
  v_bot :: bot_ref
  v_inter :: ctx
  v_guild :: guild

text \<open>What the command takes from its collaborators, none of which is in the module:
  the state the view \<open>SelectBotVoice(ctx, guild, free_bots)\<close> ends in, the check
  \<open>can_connect\<close> (which raises or returns), the number of one-second sleeps after which
  \<open>ctx.guild.me.voice\<close> is set (\<open>None\<close>: never), and
  \<open>permissions_for(guild.me).manage_permissions\<close> of a stage channel.\<close>

record env =
  select_bot_voice :: "ctx \<Rightarrow> guild \<Rightarrow> bot_ref list \<Rightarrow> view"
  can_connect :: "voice_channel \<Rightarrow> guild \<Rightarrow> error option"
  me_voice_after :: "nat option"
  manage_permissions :: bool

datatype ret = Returned | Raised error | Hangs

record result =
  ret :: ret
  final :: pool_state
  log :: "event list"

section \<open>Lookups of a bot\<close>

definition get_guild :: "bot_ref \<Rightarrow> bot \<Rightarrow> guild_id \<Rightarrow> guild option" where
  "get_guild r b gid = (if gid \<in> guilds b then Some \<lparr>g_id = gid, g_me = r\<rparr> else None)"

definition get_channel :: "bot_ref \<Rightarrow> bot \<Rightarrow> channel_id \<Rightarrow> text_channel option" where
  "get_channel r b cid = (if cid \<in> channels b then Some (r, cid) else None)"

section \<open>The candidate loop (lines 627-644)\<close>

text \<open>
  \<^verbatim>\<open>
  free_bots = []
  for b in self.bot.pool.bots:
      if not b.bot_ready: continue
      g = b.get_guild(ctx.guild_id)
      if not g: continue
      p = b.music.players.get(ctx.guild_id)
      if p and ctx.author.id not in p.last_channel.voice_states: continue
      free_bots.append(b)
  \<close>
\<close>

fun free_bots_loop :: "ctx \<Rightarrow> (bot_ref \<Rightarrow> bot) \<Rightarrow> bot_ref list \<Rightarrow> bot_ref list \<Rightarrow> bot_ref list" where
  "free_bots_loop c bs [] acc = acc"
| "free_bots_loop c bs (b # rest) acc =
     (if \<not> bot_ready (bs b) then free_bots_loop c bs rest acc
      else case get_guild b (bs b) (g_id (c_guild c)) of
        None \<Rightarrow> free_bots_loop c bs rest acc
      | Some g \<Rightarrow>
         (case players (bs b) (g_id (c_guild c)) of
            Some p \<Rightarrow>
              if author_id c \<notin> voice_states (last_channel p)
              then free_bots_loop c bs rest acc
              else free_bots_loop c bs rest (acc @ [b])
          | None \<Rightarrow> free_bots_loop c bs rest (acc @ [b])))"

definition free_bots :: "ctx \<Rightarrow> pool_state \<Rightarrow> bot_ref list" where
  "free_bots c s = free_bots_loop c (bots s) (pool_bots s) []"

section \<open>The music subsystem\<close>

text \<open>Modelled from the spec: \<open>Music.create_player\<close> and \<open>LavalinkPlayer.connect\<close>
  (package \<open>utils.music\<close>) are not in the module. The spec gives the session subsystem as
  \<open>createSession(instanceId, resourceGroupId, subLocation) -> ActiveSession\<close>, an active
  session having an owning instance, the sub-location it occupies and the members present
  there, and the handoff as binding the requester's reply channel. \<open>create_player\<close>
  registers the session in the players of the bot it is given, under the id of the guild
  it is given (a dictionary holds one player per guild id, so an entry already there is
  replaced); \<open>connect\<close> moves the session of that bot and guild to the voice channel.\<close>

definition create_player ::
  "ctx \<Rightarrow> bot_ref \<Rightarrow> guild \<Rightarrow> text_channel option \<Rightarrow> voice_channel \<Rightarrow> pool_state \<Rightarrow> pool_state" where
  "create_player c b g ch vc s =
     s\<lparr>bots := (bots s)(b := (bots s b)\<lparr>players := (players (bots s b))(g_id g \<mapsto>
          \<lparr>p_bot = b, p_guild = g, p_text_channel = ch, last_channel = vc\<rparr>)\<rparr>)\<rparr>"

definition connect :: "bot_ref \<Rightarrow> guild_id \<Rightarrow> voice_channel \<Rightarrow> pool_state \<Rightarrow> pool_state" where
  "connect b gid vc s =
     (case players (bots s b) gid of
        None \<Rightarrow> s
      | Some p \<Rightarrow>
          s\<lparr>bots := (bots s)(b := (bots s b)\<lparr>players :=
               (players (bots s b))(gid \<mapsto> p\<lparr>last_channel := vc\<rparr>)\<rparr>)\<rparr>)"

section \<open>The command\<close>

text \<open>Lines 703-714, after the session is started: the wait for the voice state, the
  stage channel and \<open>player.process_next()\<close>.
  \<^verbatim>\<open>
  while not ctx.guild.me.voice:
      await asyncio.sleep(1)
  if isinstance(ctx.author.voice.channel, disnake.StageChannel):
      stage_perms = ctx.author.voice.channel.permissions_for(guild.me)
      if stage_perms.manage_permissions:
          await guild.me.edit(suppress=False)
      await asyncio.sleep(1.5)
  await player.process_next()
  \<close>
\<close>

definition after_connect ::
  "env \<Rightarrow> bot_ref \<Rightarrow> guild \<Rightarrow> voice_channel \<Rightarrow> pool_state \<Rightarrow> event list \<Rightarrow> result" where
  "after_connect e b g vc s evs =
     (case me_voice_after e of
        None \<Rightarrow> \<lparr>ret = Hangs, final = s, log = evs\<rparr>
      | Some n \<Rightarrow>
          \<lparr>ret = Returned, final = s,
           log = evs @ replicate n Sleep1
                 @ (if stage vc
                    then (if manage_permissions e then [Unsuppress g] else []) @ [StageSleep]
                    else [])
                 @ [ProcessNext b (g_id g)]\<rparr>)"

text \<open>Lines 682-701, with the values the variables \<open>ctx\<close>, \<open>bot\<close>, \<open>guild\<close>, \<open>channel\<close>
  and \<open>msg\<close> have there (\<open>has_msg\<close>: a prompt was sent), \<open>vc\<close> being
  \<open>ctx.author.voice.channel\<close>.
  \<^verbatim>\<open>
  can_connect(channel=ctx.author.voice.channel, guild=guild)
  node = bot.music.get_best_node()
  if not node:
      raise GenericError("**No music servers available!**")
  player = await bot.get_cog("Music").create_player(inter=ctx, bot=bot, guild=guild, channel=channel)
  await player.connect(ctx.author.voice.channel.id)
  if msg:
      await msg.edit(f"Music session started on the channel ... By: {bot.user.mention}...")
  else:
      self.bot.loop.create_task(ctx.message.add_reaction(...))
  \<close>
\<close>

definition start_session ::
  "env \<Rightarrow> ctx \<Rightarrow> bot_ref \<Rightarrow> guild \<Rightarrow> text_channel option \<Rightarrow> bool \<Rightarrow> voice_channel
     \<Rightarrow> pool_state \<Rightarrow> event list \<Rightarrow> result" where
  "start_session e c b g ch has_msg vc s evs =
     (case can_connect e vc g of
        Some err \<Rightarrow> \<lparr>ret = Raised err, final = s, log = evs\<rparr>
      | None \<Rightarrow>
         (case best_node (bots s b) of
            None \<Rightarrow> \<lparr>ret = Raised (GenericError ''**No music servers available!**''),
                      final = s, log = evs\<rparr>
          | Some node \<Rightarrow>
              after_connect e b g vc
                (connect b (g_id g) vc (create_player c b g ch vc s))
                (evs @ [CreatePlayer c b g ch, Connect b (g_id g) (vc_id vc),
                        if has_msg then EditPrompt (SessionStarted (vc_id vc) (b_user_id (bots s b)))
                        else AddReaction (c_bot c) (c_channel c)])))"

text \<open>Lines 646-680: the selection among several candidates. The second test of
  \<open>v.inter.author.voice\<close> (line 674) is kept as the source has it.\<close>

definition select_bot ::
  "env \<Rightarrow> ctx \<Rightarrow> voice_channel \<Rightarrow> bot_ref list \<Rightarrow> pool_state \<Rightarrow> result" where
  "select_bot e c vc fb s =
     (let v = select_bot_voice e c (c_guild c) fb;
          evs = [SendPrompt (c_bot c) (c_channel c) (vc_id vc) fb, AwaitView]
      in case v_status v of
           None \<Rightarrow> \<lparr>ret = Returned, final = s, log = evs @ [EditPrompt TimeIsUp]\<rparr>
         | Some False \<Rightarrow> \<lparr>ret = Returned, final = s, log = evs @ [EditPrompt OperationCanceled]\<rparr>
         | Some True \<Rightarrow>
            (case author_voice (v_inter v) of
               None \<Rightarrow> \<lparr>ret = Returned, final = s, log = evs @ [EditPrompt NotConnected]\<rparr>
             | Some vc' \<Rightarrow>
                 if author_voice (v_inter v) = None
                 then \<lparr>ret = Raised NoVoice, final = s, log = evs\<rparr>
                 else start_session e (v_inter v) (v_bot v) (v_guild v)
                        (get_channel (v_bot v) (bots s (v_bot v)) (c_channel (v_inter v)))
                        True vc' s evs))"

text \<open>The command. Line 615 raises when the addressed bot has a player for the guild;
  line 625 reads \<open>ctx.author.voice.channel\<close>, an \<open>AttributeError\<close> when the author has no
  voice state (the decorator \<open>check_voice\<close> is there to exclude it).\<close>

definition summon :: "env \<Rightarrow> ctx \<Rightarrow> pool_state \<Rightarrow> result" where
  "summon e c s =
     (case players (bots s (c_bot c)) (g_id (c_guild c)) of
        Some p \<Rightarrow>
          \<lparr>ret = Raised (GenericError ''**A player is already initiated on the server.**''),
           final = s, log = []\<rparr>
      | None \<Rightarrow>
         (case author_voice c of
            None \<Rightarrow> \<lparr>ret = Raised AttributeError, final = s, log = []\<rparr>
          | Some vc \<Rightarrow>
              if b_user_id (bots s (c_bot c)) \<notin> voice_states vc
              then (let fb = free_bots c s
                    in if length fb > 1
                       then select_bot e c vc fb s
                       else start_session e c (c_bot c) (c_guild c)
                              (Some (c_bot c, c_channel c)) False vc s [])
              else start_session e c (c_bot c) (c_guild c)
                     (Some (c_bot c, c_channel c)) False vc s []))"

section \<open>The candidate list\<close>

text \<open>The policy in the words of the spec, to compare the loop with: an instance is
  eligible when it is ready, sees the guild, and either holds no session of the guild or
  holds one in whose channel the requester is.\<close>

definition eligible :: "ctx \<Rightarrow> pool_state \<Rightarrow> bot_ref \<Rightarrow> bool" where
  "eligible c s b =
     (bot_ready (bots s b) \<and> g_id (c_guild c) \<in> guilds (bots s b) \<and>
      (case players (bots s b) (g_id (c_guild c)) of
         None \<Rightarrow> True
       | Some p \<Rightarrow> author_id c \<in> voice_states (last_channel p)))"


text \<open>The events of an interactive selection.\<close>

fun selection_event :: "event \<Rightarrow> bool" where
  "selection_event (SendPrompt b ch vc fb) = True"
| "selection_event AwaitView = True"
| "selection_event (EditPrompt t) = True"
| "selection_event ev = False"

text \<open>The events that register or move a session.\<close>

fun session_event :: "event \<Rightarrow> bool" where
  "session_event (CreatePlayer c b g ch) = True"
| "session_event (Connect b g vc) = True"
| "session_event ev = False"

text \<open>The pool instances that hold a session in a guild, in pool order.\<close>

definition holders :: "pool_state \<Rightarrow> guild_id \<Rightarrow> bot_ref list" where
  "holders s gid = filter (\<lambda>b. players (bots s b) gid \<noteq> None) (pool_bots s)"

section \<open>Example pools and requests\<close>

text \<open>Two bots, \<open>1\<close> and \<open>2\<close> (user ids \<open>101\<close> and \<open>102\<close>), in guild \<open>7\<close> with the voice
  channels \<open>11\<close> and \<open>12\<close> and the text channel \<open>20\<close>; the users \<open>1\<close> and \<open>2\<close>.\<close>

definition idle_bot :: "user_id \<Rightarrow> bot" where
  "idle_bot u = \<lparr>b_user_id = u, bot_ready = True, guilds = {7}, players = Map.empty,
                 best_node = Some 0, channels = {20}\<rparr>"

definition absent_bot :: bot where
  "absent_bot = \<lparr>b_user_id = 0, bot_ready = False, guilds = {}, players = Map.empty,
                 best_node = None, channels = {}\<rparr>"

definition chan11 :: voice_channel where
  "chan11 = \<lparr>vc_id = 11, voice_states = {1, 102}, stage = False\<rparr>"

definition chan12 :: voice_channel where
  "chan12 = \<lparr>vc_id = 12, voice_states = {2}, stage = False\<rparr>"

definition session2 :: player where
  "session2 = \<lparr>p_bot = 2, p_guild = \<lparr>g_id = 7, g_me = 2\<rparr>, p_text_channel = Some (2, 20),
               last_channel = chan11\<rparr>"

text \<open>Bot 1 is idle, bot 2 holds a session of guild 7 in channel 11, where user 1 is.\<close>

definition pool12 :: pool_state where
  "pool12 = \<lparr>bots = (\<lambda>r. absent_bot)(1 := idle_bot 101,
                2 := (idle_bot 102)\<lparr>players := [7 \<mapsto> session2]\<rparr>),
             pool_bots = [1, 2]\<rparr>"

text \<open>Bot 1 is in the guild and has a node but is not ready; bot 2 is idle.\<close>

definition pool_unready :: pool_state where
  "pool_unready = \<lparr>bots = (\<lambda>r. absent_bot)(1 := (idle_bot 101)\<lparr>bot_ready := False\<rparr>,
                      2 := idle_bot 102),
                   pool_bots = [1, 2]\<rparr>"

text \<open>Bot 1 already holds a session of guild 7, in channel 11.\<close>

definition pool_busy :: pool_state where
  "pool_busy = \<lparr>bots = (\<lambda>r. absent_bot)(1 := (idle_bot 101)\<lparr>players :=
                   [7 \<mapsto> session2\<lparr>p_bot := 1, p_guild := \<lparr>g_id = 7, g_me = 1\<rparr>\<rparr>]\<rparr>,
                   2 := idle_bot 102),
                pool_bots = [1, 2]\<rparr>"

text \<open>Both bots are idle and see the text channel 20.\<close>

definition pool_idle :: pool_state where
  "pool_idle = \<lparr>bots = (\<lambda>r. absent_bot)(1 := idle_bot 101, 2 := idle_bot 102),
                pool_bots = [1, 2]\<rparr>"

text \<open>Both bots are idle; bot 2 has no object of the text channel 20.\<close>

definition pool_blind :: pool_state where
  "pool_blind = \<lparr>bots = (\<lambda>r. absent_bot)(1 := idle_bot 101,
                    2 := (idle_bot 102)\<lparr>channels := {}\<rparr>),
                 pool_bots = [1, 2]\<rparr>"

text \<open>User 1, in channel 11, and user 2, in channel 12, each address bot 1 from the
  text channel 20.\<close>

definition req1 :: ctx where
  "req1 = \<lparr>c_bot = 1, author_id = 1, author_voice = Some chan11, c_channel = 20,
           c_guild = \<lparr>g_id = 7, g_me = 1\<rparr>\<rparr>"

definition req2 :: ctx where
  "req2 = \<lparr>c_bot = 1, author_id = 2, author_voice = Some chan12, c_channel = 20,
           c_guild = \<lparr>g_id = 7, g_me = 1\<rparr>\<rparr>"

text \<open>User 1 in channel 11 after bot 1 has joined it (user id 101 is among the voice
  states).\<close>

definition req_joined :: ctx where
  "req_joined = req1\<lparr>author_voice := Some (chan11\<lparr>voice_states := {1, 101}\<rparr>)\<rparr>"

text \<open>Views: the requester picks bot 2; the deadline passes; the requester cancels; the
  requester picks bot 2 after leaving the voice channel.\<close>

definition view_pick2 :: view where
  "view_pick2 = \<lparr>v_status = Some True, v_bot = 2, v_inter = req1,
                 v_guild = \<lparr>g_id = 7, g_me = 2\<rparr>\<rparr>"

definition view_timeout :: view where
  "view_timeout = view_pick2\<lparr>v_status := None\<rparr>"

definition view_cancel :: view where
  "view_cancel = view_pick2\<lparr>v_status := Some False\<rparr>"

definition view_left :: view where
  "view_left = view_pick2\<lparr>v_inter := req1\<lparr>author_voice := None\<rparr>\<rparr>"

text \<open>User 1 alone in the voice channel 13 addresses bot 1 from the text channel 20, and
  then picks bot 2 on the prompt.\<close>

definition chan13 :: voice_channel where
  "chan13 = \<lparr>vc_id = 13, voice_states = {1}, stage = False\<rparr>"

definition req3 :: ctx where
  "req3 = req1\<lparr>author_voice := Some chan13\<rparr>"

definition view3 :: view where
  "view3 = \<lparr>v_status = Some True, v_bot = 2, v_inter = req3,
            v_guild = \<lparr>g_id = 7, g_me = 2\<rparr>\<rparr>"

definition env_of :: "view \<Rightarrow> env" where
  "env_of v = \<lparr>select_bot_voice = (\<lambda>c g fb. v), can_connect = (\<lambda>vc g. None),
               me_voice_after = Some 0, manage_permissions = False\<rparr>"

section \<open>Facts about the model\<close>

lemma free_bots_loop_filter:
  "free_bots_loop c bs xs acc =
     acc @ filter (\<lambda>b. bot_ready (bs b) \<and> g_id (c_guild c) \<in> guilds (bs b) \<and>
       (case players (bs b) (g_id (c_guild c)) of
          None \<Rightarrow> True
        | Some p \<Rightarrow> author_id c \<in> voice_states (last_channel p))) xs"
  by (induction xs arbitrary: acc) (simp_all add: get_guild_def split: option.splits)

lemma free_bots_filter: "free_bots c s = filter (eligible c s) (pool_bots s)"
  unfolding free_bots_def free_bots_loop_filter eligible_def by simp

lemma session_created:
  "players (bots (connect b (g_id g) vc (create_player c b g ch vc s)) b) (g_id g) =
     Some \<lparr>p_bot = b, p_guild = g, p_text_channel = ch, last_channel = vc\<rparr>"
  by (simp add: connect_def create_player_def)

lemma session_other_bot:
  "b' \<noteq> b \<Longrightarrow> bots (connect b (g_id g) vc (create_player c b g ch vc s)) b' = bots s b'"
  by (simp add: connect_def create_player_def)

lemma session_other_guild:
  "gid \<noteq> g_id g \<Longrightarrow>
   players (bots (connect b (g_id g) vc (create_player c b g ch vc s)) b') gid =
     players (bots s b') gid"
  by (simp add: connect_def create_player_def)

lemma session_pool:
  "pool_bots (connect b (g_id g) vc (create_player c b g ch vc s)) = pool_bots s"
  by (simp add: connect_def create_player_def)

lemma start_session_refused:
  "can_connect e vc g = Some err \<Longrightarrow>
   start_session e c b g ch m vc s evs = \<lparr>ret = Raised err, final = s, log = evs\<rparr>"
  by (simp add: start_session_def)

lemma start_session_no_node:
  "can_connect e vc g = None \<Longrightarrow> best_node (bots s b) = None \<Longrightarrow>
   start_session e c b g ch m vc s evs =
     \<lparr>ret = Raised (GenericError ''**No music servers available!**''), final = s, log = evs\<rparr>"
  by (simp add: start_session_def)

lemma start_session_final:
  "can_connect e vc g = None \<Longrightarrow> best_node (bots s b) = Some n \<Longrightarrow>
   final (start_session e c b g ch m vc s evs) =
     connect b (g_id g) vc (create_player c b g ch vc s)"
  by (simp add: start_session_def after_connect_def split: option.splits)


lemma start_session_log:
  "can_connect e vc g = None \<Longrightarrow> best_node (bots s b) = Some n \<Longrightarrow>
   \<exists>rest. log (start_session e c b g ch m vc s evs) =
     evs @ [CreatePlayer c b g ch, Connect b (g_id g) (vc_id vc),
            if m then EditPrompt (SessionStarted (vc_id vc) (b_user_id (bots s b)))
            else AddReaction (c_bot c) (c_channel c)] @ rest \<and>
     \<not> list_ex selection_event rest \<and> \<not> list_ex session_event rest"
  by (simp add: start_session_def after_connect_def list_ex_iff split: option.splits)


lemma summon_selects:
  "players (bots s (c_bot c)) (g_id (c_guild c)) = None \<Longrightarrow> author_voice c = Some vc \<Longrightarrow>
   b_user_id (bots s (c_bot c)) \<notin> voice_states vc \<Longrightarrow> 1 < length (free_bots c s) \<Longrightarrow>
   summon e c s = select_bot e c vc (free_bots c s) s"
  by (simp add: summon_def Let_def)

lemma summon_joined:
  "players (bots s (c_bot c)) (g_id (c_guild c)) = None \<Longrightarrow> author_voice c = Some vc \<Longrightarrow>
   b_user_id (bots s (c_bot c)) \<in> voice_states vc \<Longrightarrow>
   summon e c s =
     start_session e c (c_bot c) (c_guild c) (Some (c_bot c, c_channel c)) False vc s []"
  by (simp add: summon_def)


lemmas example_defs = idle_bot_def absent_bot_def chan11_def chan12_def session2_def
  pool12_def pool_unready_def pool_idle_def pool_blind_def pool_busy_def req1_def req2_def
  req_joined_def chan13_def req3_def view3_def
  view_pick2_def view_timeout_def view_cancel_def view_left_def env_of_def

lemma free_bots_req1_pool12: "free_bots req1 pool12 = [1, 2]"
  by (simp add: free_bots_def get_guild_def example_defs)


lemma select_bot_log_prefix:
  "\<exists>rest. log (select_bot e c vc fb s) =
     SendPrompt (c_bot c) (c_channel c) (vc_id vc) fb # AwaitView # rest"
  by (simp add: select_bot_def start_session_def after_connect_def Let_def
      split: option.splits bool.splits)

lemma select_bot_unchosen:
  "v_status (select_bot_voice e c (c_guild c) fb) \<noteq> Some True \<Longrightarrow>
   select_bot e c vc fb s =
     \<lparr>ret = Returned, final = s,
      log = [SendPrompt (c_bot c) (c_channel c) (vc_id vc) fb, AwaitView,
             EditPrompt (if v_status (select_bot_voice e c (c_guild c) fb) = None
                         then TimeIsUp else OperationCanceled)]\<rparr>"
  by (simp add: select_bot_def Let_def split: option.splits bool.splits)

lemma select_bot_left:
  "v_status (select_bot_voice e c (c_guild c) fb) = Some True \<Longrightarrow>
   author_voice (v_inter (select_bot_voice e c (c_guild c) fb)) = None \<Longrightarrow>
   select_bot e c vc fb s =
     \<lparr>ret = Returned, final = s,
      log = [SendPrompt (c_bot c) (c_channel c) (vc_id vc) fb, AwaitView,
             EditPrompt NotConnected]\<rparr>"
  by (simp add: select_bot_def Let_def)


lemma summon_holder:
  "players (bots s (c_bot c)) (g_id (c_guild c)) = Some p \<Longrightarrow>
   summon e c s =
     \<lparr>ret = Raised (GenericError ''**A player is already initiated on the server.**''),
      final = s, log = []\<rparr>"
  by (simp add: summon_def)

lemma start_session_no_selection:
  "\<not> list_ex selection_event (log (start_session e c b g ch False vc s []))"
  by (simp add: start_session_def after_connect_def list_ex_iff split: option.splits)

lemma start_session_pool_free:
  "start_session (e\<lparr>select_bot_voice := sel\<rparr>) c b g ch m vc (s\<lparr>pool_bots := ps\<rparr>) evs =
     (start_session e c b g ch m vc s evs)
       \<lparr>final := (final (start_session e c b g ch m vc s evs))\<lparr>pool_bots := ps\<rparr>\<rparr>"
  by (simp add: start_session_def after_connect_def connect_def create_player_def
      split: option.splits)



section \<open>The claims\<close>

text \<open>C1. The candidate list holds a pool instance only if it passed every step of the
  policy: an instance that is not ready is left out, an instance that cannot see the guild
  (\<open>get_guild\<close> gives nothing) is left out, and a ready pool instance that sees the guild
  is in the list when it has no player for the guild, and, when it has one, exactly when
  the requester is among the voice states of that player's channel.\<close>

theorem free_bots_policy:
  "(b \<in> set (free_bots c s) \<longrightarrow>
      b \<in> set (pool_bots s) \<and> bot_ready (bots s b) \<and>
      get_guild b (bots s b) (g_id (c_guild c)) \<noteq> None) \<and>
   (b \<in> set (pool_bots s) \<and> bot_ready (bots s b) \<and>
    get_guild b (bots s b) (g_id (c_guild c)) \<noteq> None \<longrightarrow>
      (case players (bots s b) (g_id (c_guild c)) of
         None \<Rightarrow> b \<in> set (free_bots c s)
       | Some p \<Rightarrow>
           (b \<in> set (free_bots c s)) = (author_id c \<in> voice_states (last_channel p))))"
  by (auto simp: free_bots_filter eligible_def get_guild_def split: option.splits)

theorem free_bots_policy_witness:
  "2 \<in> set (free_bots req1 pool12) \<and> 2 \<notin> set (free_bots req2 pool12) \<and>
   1 \<notin> set (free_bots req2 pool_unready)"
  using free_bots_policy [of 2 req1 pool12] free_bots_policy [of 2 req2 pool12]
    free_bots_policy [of 1 req2 pool_unready]
  by (simp add: get_guild_def example_defs)

text \<open>C2, as the code has it. The registry is one dictionary of players per instance,
  keyed by guild id, so an instance holds at most one session per guild. The command looks
  only into the players of the addressed instance (line 615): a request addressed to an
  instance that holds a session of the guild is rejected with a \<open>GenericError\<close>, and
  nothing is changed or created. Sessions that other instances hold in the guild do not
  reject the request.\<close>

theorem summon_rejects_addressed_holder:
  "players (bots s (c_bot c)) (g_id (c_guild c)) = Some p \<Longrightarrow>
   final (summon e c s) = s \<and> (\<exists>m. ret (summon e c s) = Raised (GenericError m)) \<and>
   \<not> list_ex session_event (log (summon e c s))"
  by (simp add: summon_holder)

text \<open>The rejection at the pool where the addressed instance 1 holds a session.\<close>

theorem summon_rejects_addressed_holder_witness:
  "final (summon (env_of view_pick2) req2 pool_busy) = pool_busy \<and>
   \<not> list_ex session_event (log (summon (env_of view_pick2) req2 pool_busy))"
  using summon_rejects_addressed_holder [of pool_busy req2 _ "env_of view_pick2"]
  by (simp add: example_defs)

text \<open>C2 as stated fails: in the pool where instance 2 holds a session of guild 7, the
  request of user 2 addressed to instance 1 returns normally and leaves two sessions of
  guild 7 in the pool, one on each instance.\<close>

theorem summon_second_holder:
  "holders pool12 7 = [2] \<and> free_bots req2 pool12 = [1] \<and>
   ret (summon (env_of view_pick2) req2 pool12) = Returned \<and>
   holders (final (summon (env_of view_pick2) req2 pool12)) 7 = [1, 2]"
  by (simp add: free_bots_def get_guild_def Let_def summon_def start_session_def
      after_connect_def connect_def create_player_def holders_def example_defs)



text \<open>C5. When the candidate list has more than one entry (and the command reaches the
  candidate loop), the first things the command does are to send the prompt with the
  candidates and to wait for the view: no player is created and no session moved before
  that wait is over. Unless the view ends with a choice, the pool is left as it was and no
  session event happens at all.\<close>

theorem summon_selection_first:
  assumes "players (bots s (c_bot c)) (g_id (c_guild c)) = None"
    and "author_voice c = Some vc"
    and "b_user_id (bots s (c_bot c)) \<notin> voice_states vc"
    and "1 < length (free_bots c s)"
  shows "(\<exists>rest. log (summon e c s) =
       SendPrompt (c_bot c) (c_channel c) (vc_id vc) (free_bots c s) # AwaitView # rest) \<and>
    (v_status (select_bot_voice e c (c_guild c) (free_bots c s)) \<noteq> Some True \<longrightarrow>
       final (summon e c s) = s \<and> \<not> list_ex session_event (log (summon e c s)))"
proof -
  have sel: "summon e c s = select_bot e c vc (free_bots c s) s"
    using assms by (simp add: summon_selects)
  show ?thesis
    using select_bot_log_prefix [of e c vc "free_bots c s" s]
    by (auto simp: sel select_bot_unchosen)
qed

text \<open>The selection between instances 1 and 2 for user 1, with a choice and with a timeout.\<close>

theorem summon_selection_first_witness:
  "take 2 (log (summon (env_of view_pick2) req1 pool12)) = [SendPrompt 1 20 11 [1, 2], AwaitView] \<and>
   final (summon (env_of view_timeout) req1 pool12) = pool12"
  using summon_selection_first [of pool12 req1 chan11 "env_of view_pick2"]
    summon_selection_first [of pool12 req1 chan11 "env_of view_timeout"]
    free_bots_req1_pool12
  by (auto simp: example_defs)

text \<open>C6. When the view ends with a choice and the chooser has no voice state any more
  (line 669), the command edits the prompt to the not-connected text and returns: the pool
  is unchanged, no player is created, nothing is raised.\<close>

theorem summon_requester_left:
  assumes "players (bots s (c_bot c)) (g_id (c_guild c)) = None"
    and "author_voice c = Some vc"
    and "b_user_id (bots s (c_bot c)) \<notin> voice_states vc"
    and "1 < length (free_bots c s)"
    and "v_status (select_bot_voice e c (c_guild c) (free_bots c s)) = Some True"
    and "author_voice (v_inter (select_bot_voice e c (c_guild c) (free_bots c s))) = None"
  shows "summon e c s =
    \<lparr>ret = Returned, final = s,
     log = [SendPrompt (c_bot c) (c_channel c) (vc_id vc) (free_bots c s), AwaitView,
            EditPrompt NotConnected]\<rparr>"
  using assms by (simp add: summon_selects select_bot_left)

text \<open>User 1 picks instance 2 after leaving the voice channel.\<close>

theorem summon_requester_left_witness:
  "summon (env_of view_left) req1 pool12 =
    \<lparr>ret = Returned, final = pool12,
     log = [SendPrompt 1 20 11 [1, 2], AwaitView, EditPrompt NotConnected]\<rparr>"
  using summon_requester_left [of pool12 req1 chan11 "env_of view_left"]
    free_bots_req1_pool12
  by (simp add: example_defs)

text \<open>C7. When the view ends by its timeout (\<open>status\<close> is \<open>None\<close>) or by a cancel
  (\<open>status\<close> is \<open>False\<close>), the command edits the prompt to the matching text and
  returns normally: nothing is raised, the pool is unchanged, no session is created.\<close>

theorem summon_timeout_or_cancel:
  assumes "players (bots s (c_bot c)) (g_id (c_guild c)) = None"
    and "author_voice c = Some vc"
    and "b_user_id (bots s (c_bot c)) \<notin> voice_states vc"
    and "1 < length (free_bots c s)"
    and "v_status (select_bot_voice e c (c_guild c) (free_bots c s)) = None \<or>
         v_status (select_bot_voice e c (c_guild c) (free_bots c s)) = Some False"
  shows "summon e c s =
    \<lparr>ret = Returned, final = s,
     log = [SendPrompt (c_bot c) (c_channel c) (vc_id vc) (free_bots c s), AwaitView,
            EditPrompt (if v_status (select_bot_voice e c (c_guild c) (free_bots c s)) = None
                        then TimeIsUp else OperationCanceled)]\<rparr>"
proof -
  have "v_status (select_bot_voice e c (c_guild c) (free_bots c s)) \<noteq> Some True"
    using assms(5) by auto
  then have "select_bot e c vc (free_bots c s) s =
    \<lparr>ret = Returned, final = s,
     log = [SendPrompt (c_bot c) (c_channel c) (vc_id vc) (free_bots c s), AwaitView,
            EditPrompt (if v_status (select_bot_voice e c (c_guild c) (free_bots c s)) = None
                        then TimeIsUp else OperationCanceled)]\<rparr>"
    by (rule select_bot_unchosen)
  moreover have "summon e c s = select_bot e c vc (free_bots c s) s"
    using assms(1-4) by (rule summon_selects)
  ultimately show ?thesis by simp
qed

text \<open>The timeout and the cancel of the selection between instances 1 and 2.\<close>

theorem summon_timeout_or_cancel_witness:
  "summon (env_of view_timeout) req1 pool12 =
    \<lparr>ret = Returned, final = pool12,
     log = [SendPrompt 1 20 11 [1, 2], AwaitView, EditPrompt TimeIsUp]\<rparr> \<and>
   summon (env_of view_cancel) req1 pool12 =
    \<lparr>ret = Returned, final = pool12,
     log = [SendPrompt 1 20 11 [1, 2], AwaitView, EditPrompt OperationCanceled]\<rparr>"
  using summon_timeout_or_cancel [of pool12 req1 chan11 "env_of view_timeout"]
    summon_timeout_or_cancel [of pool12 req1 chan11 "env_of view_cancel"]
    free_bots_req1_pool12
  by (simp add: example_defs)




text \<open>C10, as the code has it. When the addressed instance is among the voice states of
  the requester's voice channel, the command sends no prompt and waits for no view, and
  its outcome depends neither on the list of pool instances nor on what a view would
  answer. It goes on with the addressed instance when that instance holds no player for
  the guild: the session is then created on it once \<open>can_connect\<close> passes and a node is
  there. When the instance holds a player for the guild, the test of line 615 comes first:
  the command raises the \<open>GenericError\<close> and changes nothing.\<close>

theorem summon_already_joined:
  assumes "author_voice c = Some vc"
    and "b_user_id (bots s (c_bot c)) \<in> voice_states vc"
  shows "\<not> list_ex selection_event (log (summon e c s)) \<and>
    ret (summon (e\<lparr>select_bot_voice := sel\<rparr>) c (s\<lparr>pool_bots := ps\<rparr>)) = ret (summon e c s) \<and>
    log (summon (e\<lparr>select_bot_voice := sel\<rparr>) c (s\<lparr>pool_bots := ps\<rparr>)) = log (summon e c s) \<and>
    bots (final (summon (e\<lparr>select_bot_voice := sel\<rparr>) c (s\<lparr>pool_bots := ps\<rparr>))) =
      bots (final (summon e c s)) \<and>
    (players (bots s (c_bot c)) (g_id (c_guild c)) \<noteq> None \<longrightarrow>
       summon e c s =
         \<lparr>ret = Raised (GenericError ''**A player is already initiated on the server.**''),
          final = s, log = []\<rparr>) \<and>
    (players (bots s (c_bot c)) (g_id (c_guild c)) = None \<and>
     can_connect e vc (c_guild c) = None \<and> best_node (bots s (c_bot c)) = Some n \<longrightarrow>
       (\<exists>rest. log (summon e c s) =
          [CreatePlayer c (c_bot c) (c_guild c) (Some (c_bot c, c_channel c)),
           Connect (c_bot c) (g_id (c_guild c)) (vc_id vc),
           AddReaction (c_bot c) (c_channel c)] @ rest) \<and>
       players (bots (final (summon e c s)) (c_bot c)) (g_id (c_guild c)) =
         Some \<lparr>p_bot = c_bot c, p_guild = c_guild c,
               p_text_channel = Some (c_bot c, c_channel c), last_channel = vc\<rparr> \<and>
       (\<forall>b'. b' \<noteq> c_bot c \<longrightarrow> bots (final (summon e c s)) b' = bots s b'))"
proof (cases "players (bots s (c_bot c)) (g_id (c_guild c))")
  case (Some p)
  have r: "summon e c s =
      \<lparr>ret = Raised (GenericError ''**A player is already initiated on the server.**''),
       final = s, log = []\<rparr>"
    using Some by (rule summon_holder)
  have "players (bots (s\<lparr>pool_bots := ps\<rparr>) (c_bot c)) (g_id (c_guild c)) = Some p"
    using Some by simp
  then have r': "summon (e\<lparr>select_bot_voice := sel\<rparr>) c (s\<lparr>pool_bots := ps\<rparr>) =
      \<lparr>ret = Raised (GenericError ''**A player is already initiated on the server.**''),
       final = s\<lparr>pool_bots := ps\<rparr>, log = []\<rparr>"
    by (rule summon_holder)
  show ?thesis
    using Some by (simp add: r r')
next
  case None
  have direct: "summon e c s =
      start_session e c (c_bot c) (c_guild c) (Some (c_bot c, c_channel c)) False vc s []"
    using None assms by (rule summon_joined)
  have direct': "summon (e\<lparr>select_bot_voice := sel\<rparr>) c (s\<lparr>pool_bots := ps\<rparr>) =
      start_session (e\<lparr>select_bot_voice := sel\<rparr>) c (c_bot c) (c_guild c)
        (Some (c_bot c, c_channel c)) False vc (s\<lparr>pool_bots := ps\<rparr>) []"
    using None assms by (simp add: summon_joined)
  have "\<not> list_ex selection_event (log (summon e c s))"
    by (simp only: direct start_session_no_selection not_False_eq_True)
  moreover have "ret (summon (e\<lparr>select_bot_voice := sel\<rparr>) c (s\<lparr>pool_bots := ps\<rparr>)) =
      ret (summon e c s)"
    and "log (summon (e\<lparr>select_bot_voice := sel\<rparr>) c (s\<lparr>pool_bots := ps\<rparr>)) =
      log (summon e c s)"
    and "bots (final (summon (e\<lparr>select_bot_voice := sel\<rparr>) c (s\<lparr>pool_bots := ps\<rparr>))) =
      bots (final (summon e c s))"
    by (simp_all add: direct direct' start_session_pool_free)
  moreover have "can_connect e vc (c_guild c) = None \<and> best_node (bots s (c_bot c)) = Some n \<longrightarrow>
       (\<exists>rest. log (summon e c s) =
          [CreatePlayer c (c_bot c) (c_guild c) (Some (c_bot c, c_channel c)),
           Connect (c_bot c) (g_id (c_guild c)) (vc_id vc),
           AddReaction (c_bot c) (c_channel c)] @ rest) \<and>
       players (bots (final (summon e c s)) (c_bot c)) (g_id (c_guild c)) =
         Some \<lparr>p_bot = c_bot c, p_guild = c_guild c,
               p_text_channel = Some (c_bot c, c_channel c), last_channel = vc\<rparr> \<and>
       (\<forall>b'. b' \<noteq> c_bot c \<longrightarrow> bots (final (summon e c s)) b' = bots s b')"
  proof
    assume ok: "can_connect e vc (c_guild c) = None \<and> best_node (bots s (c_bot c)) = Some n"
    then have cc: "can_connect e vc (c_guild c) = None"
      and bn: "best_node (bots s (c_bot c)) = Some n" by simp_all
    have "\<exists>rest. log (summon e c s) =
          [CreatePlayer c (c_bot c) (c_guild c) (Some (c_bot c, c_channel c)),
           Connect (c_bot c) (g_id (c_guild c)) (vc_id vc),
           AddReaction (c_bot c) (c_channel c)] @ rest"
      using start_session_log [OF cc bn, of c "Some (c_bot c, c_channel c)" False "[]"]
      by (auto simp: direct)
    moreover have "players (bots (final (summon e c s)) (c_bot c)) (g_id (c_guild c)) =
         Some \<lparr>p_bot = c_bot c, p_guild = c_guild c,
               p_text_channel = Some (c_bot c, c_channel c), last_channel = vc\<rparr>"
      by (simp add: direct start_session_final [OF cc bn] session_created)
    moreover have "\<forall>b'. b' \<noteq> c_bot c \<longrightarrow> bots (final (summon e c s)) b' = bots s b'"
      by (simp add: direct start_session_final [OF cc bn] session_other_bot)
    ultimately show "(\<exists>rest. log (summon e c s) =
          [CreatePlayer c (c_bot c) (c_guild c) (Some (c_bot c, c_channel c)),
           Connect (c_bot c) (g_id (c_guild c)) (vc_id vc),
           AddReaction (c_bot c) (c_channel c)] @ rest) \<and>
       players (bots (final (summon e c s)) (c_bot c)) (g_id (c_guild c)) =
         Some \<lparr>p_bot = c_bot c, p_guild = c_guild c,
               p_text_channel = Some (c_bot c, c_channel c), last_channel = vc\<rparr> \<and>
       (\<forall>b'. b' \<noteq> c_bot c \<longrightarrow> bots (final (summon e c s)) b' = bots s b')"
      by blast
  qed
  ultimately show ?thesis using None by simp
qed

text \<open>Instance 1 is in the voice channel of user 1: two instances would be candidates
  and no selection happens; where instance 1 holds a session, the command raises.\<close>

theorem summon_already_joined_witness:
  "length (free_bots req_joined pool12) = 2 \<and>
   \<not> list_ex selection_event (log (summon (env_of view_pick2) req_joined pool12)) \<and>
   players (bots (final (summon (env_of view_pick2) req_joined pool12)) 1) 7 =
     Some \<lparr>p_bot = 1, p_guild = \<lparr>g_id = 7, g_me = 1\<rparr>, p_text_channel = Some (1, 20),
           last_channel = \<lparr>vc_id = 11, voice_states = {1, 101}, stage = False\<rparr>\<rparr> \<and>
   ret (summon (env_of view_pick2) req_joined pool_busy) =
     Raised (GenericError ''**A player is already initiated on the server.**'')"
  using summon_already_joined
    [where s = pool12 and c = req_joined and e = "env_of view_pick2" and n = 0
       and vc = "\<lparr>vc_id = 11, voice_states = {1, 101}, stage = False\<rparr>"]
    summon_already_joined
    [where s = pool_busy and c = req_joined and e = "env_of view_pick2" and n = 0
       and vc = "\<lparr>vc_id = 11, voice_states = {1, 101}, stage = False\<rparr>"]
  by (simp add: free_bots_def get_guild_def example_defs)

text \<open>C10 as stated fails: instance 1 is in the voice channel of user 1 and holds a
  session of guild 7; the command raises and does not go on with the instance.\<close>

theorem summon_joined_holder_raises:
  "author_voice req_joined = Some \<lparr>vc_id = 11, voice_states = {1, 101}, stage = False\<rparr> \<and>
   b_user_id (bots pool_busy (c_bot req_joined)) = 101 \<and>
   summon (env_of view_pick2) req_joined pool_busy =
     \<lparr>ret = Raised (GenericError ''**A player is already initiated on the server.**''),
      final = pool_busy, log = []\<rparr> \<and>
   holders pool_busy 7 = [1]"
  by (simp add: summon_def holders_def example_defs)

end
